theory Spec2Isabelle
  imports Complex_Main
begin

section \<open>Monitor Switcher: data model\<close>

text \<open>
  A shallow embedding of \<^verbatim>\<open>monitor_switcher.py\<close>. Every Python exception the modelled
  code can meet is a subclass of \<^verbatim>\<open>Exception\<close>: \<^verbatim>\<open>VCPError\<close> of the monitorcontrol
  library, \<^verbatim>\<open>IndexError\<close> of list indexing, \<^verbatim>\<open>TypeError\<close> of hashing a list or a dict,
  \<^verbatim>\<open>KeyError\<close> of a dictionary read, and any other one, carried with its text.
  A computation that may raise returns \<open>exn + 'a\<close>, with \<open>Inl\<close> for the raised exception.
\<close>

datatype exn = VCPError string | IndexError | TypeError | KeyError | Exception string

text \<open>
  Values of the configuration dictionary are what \<^verbatim>\<open>json.load\<close> can produce: strings,
  numbers, booleans, \<^verbatim>\<open>null\<close>, arrays (Python lists) and objects (Python dicts). Nothing
  checks an entry before it is used.
\<close>

datatype cfg_value =
    JStr string
  | JInt int
  | JFloat rat
  | JBool bool
  | JNull
  | JArray "cfg_value list"
  | JObject "(string \<times> cfg_value) list"

text \<open>The members of monitorcontrol's \<^verbatim>\<open>InputSource\<close> that the code names, and a raw VCP code.\<close>

datatype input_source = HDMI1 | HDMI2 | DP1 | DP2 | DVI1 | DVI2 | Code int

text \<open>A monitor object returned by \<^verbatim>\<open>get_monitors()\<close> is known by its identity only.\<close>

type_synonym monitor = nat

datatype notification =
    Switched_to string cfg_value
  | Failed_to_switch cfg_value

text \<open>One constructor for each call of \<^verbatim>\<open>logger\<close> in the modelled code, with the values it formats.\<close>

datatype log_line =
    Connected_to_monitor int
  | No_monitor_found int
  | Error_initializing_monitor exn
  | No_monitor_connected_reconnecting
  | Unknown_input_source cfg_value
  | Switched_monitor_to cfg_value
  | VCP_error_switching_input exn
  | Error_switching_input exn
  | KM_switch_detected string string
  | Error_in_monitor_loop exn
  | Error_counting_devices exn
  | Switching_to_machine string
  | Configuration_saved
  | Error_saving_config exn

text \<open>
  What a run does to the outside, in order: log lines, calls of \<^verbatim>\<open>get_monitors()\<close>,
  set-input commands that reached a monitor, calls of the detector's callback,
  \<^verbatim>\<open>time.sleep\<close> with its seconds, and tray notifications.
\<close>

datatype effect =
    Log log_line
  | Get_monitors
  | Set_input_source monitor input_source
  | Callback string
  | Sleep rat
  | Notify notification

section \<open>KMSwitchDetector\<close>

text \<open>
  What the Windows API answers during one sample. The constants are those of
  \<^verbatim>\<open>win32con\<close>.
\<close>

record os =
  GetSystemMetrics :: "int \<Rightarrow> exn + int"
  GetKeyState :: "int \<Rightarrow> exn + int"

definition SM_CMOUSEBUTTONS :: int where "SM_CMOUSEBUTTONS = 43"
definition VK_SHIFT :: int where "VK_SHIFT = 16"
definition VK_CONTROL :: int where "VK_CONTROL = 17"
definition VK_MENU :: int where "VK_MENU = 18"

text \<open>The \<^verbatim>\<open>for vk in [...]\<close> loop of \<^verbatim>\<open>_count_input_devices\<close>: the first failing query raises.\<close>

fun get_key_states :: "os \<Rightarrow> int list \<Rightarrow> exn + unit" where
  "get_key_states w [] = Inr ()"
| "get_key_states w (vk # vks) =
     (case GetKeyState w vk of
        Inl e \<Rightarrow> Inl e
      | Inr _ \<Rightarrow> get_key_states w vks)"

text \<open>The body of the outer \<^verbatim>\<open>try\<close> of \<^verbatim>\<open>_count_input_devices\<close>; the inner bare \<^verbatim>\<open>except: pass\<close> is its last case.\<close>

definition count_input_devices_try :: "os \<Rightarrow> exn + int" where
  "count_input_devices_try w =
     (case GetSystemMetrics w SM_CMOUSEBUTTONS of
        Inl e \<Rightarrow> Inl e
      | Inr buttons \<Rightarrow>
          (let device_count = 0 + buttons in
           case get_key_states w [VK_SHIFT, VK_CONTROL, VK_MENU] of
             Inr _ \<Rightarrow> Inr (device_count + 2)
           | Inl _ \<Rightarrow> Inr device_count))"

text \<open>\<^verbatim>\<open>KMSwitchDetector._count_input_devices\<close>: the result, and the lines it logs.\<close>

definition count_input_devices :: "os \<Rightarrow> (exn + int) \<times> log_line list" where
  "count_input_devices w =
     (case count_input_devices_try w of
        Inr device_count \<Rightarrow> (Inr device_count, [])
      | Inl e \<Rightarrow> (Inr 0, [Error_counting_devices e]))"

text \<open>
  The fields of \<^verbatim>\<open>KMSwitchDetector\<close> that the loop reads and writes. The callback is a
  parameter of the loop: called with the new state and its own state \<open>'w\<close>, it returns
  normally or raises, and leaves its state changed either way.
\<close>

record detector =
  running :: bool
  last_device_count :: int
  last_state :: string

type_synonym 'w callback = "string \<Rightarrow> 'w \<Rightarrow> (exn + unit) \<times> 'w"

definition detector_init :: detector where
  "detector_init = \<lparr>running = False, last_device_count = 0, last_state = ''home''\<rparr>"

text \<open>\<^verbatim>\<open>start\<close> sets the flag; the thread it spawns runs \<open>monitor_loop\<close> below.\<close>

definition start :: "detector \<Rightarrow> detector" where
  "start d = d\<lparr>running := True\<rparr>"

text \<open>
  The \<^verbatim>\<open>try\<close> block of one iteration of \<^verbatim>\<open>_monitor_loop\<close>. An exception raised by the
  callback leaves the block before \<^verbatim>\<open>last_device_count\<close> is assigned and before the
  two-second sleep.
\<close>

definition monitor_tick_try ::
  "'w callback \<Rightarrow> os \<Rightarrow> detector \<Rightarrow> 'w \<Rightarrow> (exn + unit) \<times> detector \<times> 'w \<times> effect list" where
  "monitor_tick_try cb w d s =
     (case count_input_devices w of
        (Inl e, ls) \<Rightarrow> (Inl e, d, s, map Log ls)
      | (Inr current_count, ls) \<Rightarrow>
          if \<bar>current_count - last_device_count d\<bar> \<ge> 1 then
            (let new_state = (if current_count > last_device_count d then ''home'' else ''work'') in
             if new_state \<noteq> last_state d then
               (let d1 = d\<lparr>last_state := new_state\<rparr>;
                    t1 = map Log ls @ [Log (KM_switch_detected (last_state d) new_state), Callback new_state] in
                case cb new_state s of
                  (Inl e, s') \<Rightarrow> (Inl e, d1, s', t1)
                | (Inr _, s') \<Rightarrow>
                    (Inr (), d1\<lparr>last_device_count := current_count\<rparr>, s', t1 @ [Sleep 2]))
             else (Inr (), d\<lparr>last_device_count := current_count\<rparr>, s, map Log ls @ [Sleep 2]))
          else (Inr (), d, s, map Log ls @ [Sleep 2]))"

text \<open>One iteration of the \<^verbatim>\<open>while\<close> loop: the \<^verbatim>\<open>try\<close> block and its \<^verbatim>\<open>except Exception\<close> handler.\<close>

definition monitor_tick ::
  "'w callback \<Rightarrow> os \<Rightarrow> detector \<Rightarrow> 'w \<Rightarrow> detector \<times> 'w \<times> effect list" where
  "monitor_tick cb w d s =
     (case monitor_tick_try cb w d s of
        (Inr _, d', s', t) \<Rightarrow> (d', s', t)
      | (Inl e, d', s', t) \<Rightarrow> (d', s', t @ [Log (Error_in_monitor_loop e), Sleep 5]))"

text \<open>
  The \<^verbatim>\<open>while self.running\<close> loop. The list holds what the operating system answers at
  each iteration made before \<^verbatim>\<open>stop\<close> is seen; nothing in the loop clears the flag.
\<close>

fun run_ticks ::
  "'w callback \<Rightarrow> os list \<Rightarrow> detector \<Rightarrow> 'w \<Rightarrow> detector \<times> 'w \<times> effect list" where
  "run_ticks cb [] d s = (d, s, [])"
| "run_ticks cb (w # ws) d s =
     (if running d then
        (case monitor_tick cb w d s of
           (d', s', t) \<Rightarrow>
             (case run_ticks cb ws d' s' of
                (d'', s'', t') \<Rightarrow> (d'', s'', t @ t')))
      else (d, s, []))"

text \<open>
  \<^verbatim>\<open>_monitor_loop\<close>: the first sample \<open>w0\<close> sets \<^verbatim>\<open>last_device_count\<close>, then the loop runs.
  Were the first sample to raise, the thread would end with that exception.
\<close>

definition monitor_loop ::
  "'w callback \<Rightarrow> os \<Rightarrow> os list \<Rightarrow> detector \<Rightarrow> 'w \<Rightarrow> (exn + unit) \<times> detector \<times> 'w \<times> effect list" where
  "monitor_loop cb w0 ws d s =
     (case count_input_devices w0 of
        (Inl e, ls) \<Rightarrow> (Inl e, d, s, map Log ls)
      | (Inr n, ls) \<Rightarrow>
          (case run_ticks cb ws (d\<lparr>last_device_count := n\<rparr>) s of
             (d', s', t) \<Rightarrow> (Inr (), d', s', map Log ls @ t)))"

text \<open>The states the callback was called with, in order: the events of a run.\<close>

fun emitted :: "effect list \<Rightarrow> string list" where
  "emitted [] = []"
| "emitted (Callback m # t) = m # emitted t"
| "emitted (_ # t) = emitted t"

text \<open>The seconds slept, in order.\<close>

fun sleeps :: "effect list \<Rightarrow> rat list" where
  "sleeps [] = []"
| "sleeps (Sleep r # t) = r # sleeps t"
| "sleeps (_ # t) = sleeps t"

text \<open>The score of a sample: what \<^verbatim>\<open>_count_input_devices\<close> returns.\<close>

abbreviation presence_score :: "os \<Rightarrow> int" where
  "presence_score w \<equiv> projr (fst (count_input_devices w))"

section \<open>Config\<close>

text \<open>What is on disk at the path of the configuration file.\<close>

datatype file_state =
    Missing
  | Json "string \<Rightarrow> cfg_value option"
  | Truncated

text \<open>
  \<^verbatim>\<open>Config\<close>: the dictionary \<^verbatim>\<open>data\<close>, and the state of the file at \<^verbatim>\<open>config_file\<close>.
\<close>

record config =
  data :: "string \<Rightarrow> cfg_value option"
  disk :: file_state

text \<open>
  What the collaborators answer during one call into the application: the monitor
  library, the file system and the tray icon. \<open>None\<close> is a normal return.
\<close>

record env =
  get_monitors :: "exn + monitor list"
  monitor_enter :: "monitor \<Rightarrow> exn option"
  monitor_set_input_source :: "monitor \<Rightarrow> input_source \<Rightarrow> exn option"
  monitor_exit :: "monitor \<Rightarrow> exn option"
  open_for_write :: "exn option"
  json_dump :: "exn option"
  icon_notify :: "notification \<Rightarrow> exn option"

text \<open>
  \<^verbatim>\<open>Config.save\<close>: \<^verbatim>\<open>open(..., 'w')\<close> that fails leaves the file as it was; once opened the
  file is cut to nothing, so a failing \<^verbatim>\<open>json.dump\<close> leaves it incomplete.
\<close>

definition save :: "env \<Rightarrow> config \<Rightarrow> config \<times> effect list" where
  "save e cfg =
     (case open_for_write e of
        Some ex \<Rightarrow> (cfg, [Log (Error_saving_config ex)])
      | None \<Rightarrow>
          (case json_dump e of
             Some ex \<Rightarrow> (cfg\<lparr>disk := Truncated\<rparr>, [Log (Error_saving_config ex)])
           | None \<Rightarrow> (cfg\<lparr>disk := Json (data cfg)\<rparr>, [Log Configuration_saved])))"

definition get :: "config \<Rightarrow> string \<Rightarrow> cfg_value \<Rightarrow> cfg_value" where
  "get cfg key dflt = (case data cfg key of Some v \<Rightarrow> v | None \<Rightarrow> dflt)"

definition set_config :: "env \<Rightarrow> config \<Rightarrow> string \<Rightarrow> cfg_value \<Rightarrow> config \<times> effect list" where
  "set_config e cfg key v = save e (cfg\<lparr>data := (data cfg)(key \<mapsto> v)\<rparr>)"

section \<open>MonitorController\<close>

definition INPUT_SOURCES :: "(string \<times> input_source) list" where
  "INPUT_SOURCES =
     [(''HDMI-1'', HDMI1),
      (''HDMI-2'', HDMI2),
      (''DisplayPort-1'', DP1),
      (''DisplayPort-2'', DP2),
      (''DVI-1'', DVI1),
      (''DVI-2'', DVI2),
      (''VGA-1'', Code 1)]"

text \<open>
  The entry of \<^verbatim>\<open>INPUT_SOURCES\<close> under a key, if there is one: the keys are strings, so no
  other value is among them.
\<close>

fun input_sources_lookup :: "cfg_value \<Rightarrow> input_source option" where
  "input_sources_lookup (JStr name) = map_of INPUT_SOURCES name"
| "input_sources_lookup _ = None"

text \<open>A dictionary hashes the key it is asked about; Python lists and dicts have no hash.\<close>

fun hashable :: "cfg_value \<Rightarrow> bool" where
  "hashable (JArray _) = False"
| "hashable (JObject _) = False"
| "hashable _ = True"

text \<open>\<^verbatim>\<open>input_name not in self.INPUT_SOURCES\<close>: an unhashable name raises \<^verbatim>\<open>TypeError\<close>.\<close>

definition not_in_INPUT_SOURCES :: "cfg_value \<Rightarrow> exn + bool" where
  "not_in_INPUT_SOURCES input_name =
     (if hashable input_name then Inr (input_sources_lookup input_name = None)
      else Inl TypeError)"

text \<open>\<^verbatim>\<open>self.INPUT_SOURCES[input_name]\<close>: a key that is absent raises \<^verbatim>\<open>KeyError\<close>.\<close>

definition INPUT_SOURCES_getitem :: "cfg_value \<Rightarrow> exn + input_source" where
  "INPUT_SOURCES_getitem input_name =
     (if hashable input_name
      then (case input_sources_lookup input_name of
              None \<Rightarrow> Inl KeyError
            | Some input_source \<Rightarrow> Inr input_source)
      else Inl TypeError)"

record monitor_controller =
  monitor_index :: int
  monitor :: "monitor option"

text \<open>Python's \<^verbatim>\<open>xs[i]\<close>: a negative index counts from the end, out of range raises.\<close>

definition py_index :: "'a list \<Rightarrow> int \<Rightarrow> exn + 'a" where
  "py_index xs i =
     (if 0 \<le> i \<and> i < int (length xs) then Inr (xs ! nat i)
      else if i < 0 \<and> - int (length xs) \<le> i then Inr (xs ! nat (int (length xs) + i))
      else Inl IndexError)"

text \<open>\<^verbatim>\<open>MonitorController._init_monitor\<close>: every exception ends in the log.\<close>

definition init_monitor :: "env \<Rightarrow> monitor_controller \<Rightarrow> monitor_controller \<times> effect list" where
  "init_monitor e c =
     (case get_monitors e of
        Inl ex \<Rightarrow> (c, [Get_monitors, Log (Error_initializing_monitor ex)])
      | Inr monitors \<Rightarrow>
          if monitors \<noteq> [] \<and> int (length monitors) > monitor_index c then
            (case py_index monitors (monitor_index c) of
               Inl ex \<Rightarrow> (c, [Get_monitors, Log (Error_initializing_monitor ex)])
             | Inr m \<Rightarrow>
                 (c\<lparr>monitor := Some m\<rparr>,
                  [Get_monitors, Log (Connected_to_monitor (monitor_index c))]))
          else (c, [Get_monitors, Log (No_monitor_found (monitor_index c))]))"

text \<open>
  \<^verbatim>\<open>with self.monitor: self.monitor.set_input_source(input_source)\<close>. An exception of
  \<^verbatim>\<open>__enter__\<close> skips the body; after the body \<^verbatim>\<open>__exit__\<close> runs in every case, and an
  exception of the body goes on unless \<^verbatim>\<open>__exit__\<close> raises one of its own.
\<close>

definition with_monitor_set_input_source ::
  "env \<Rightarrow> monitor \<Rightarrow> input_source \<Rightarrow> (exn + unit) \<times> effect list" where
  "with_monitor_set_input_source e m src =
     (case monitor_enter e m of
        Some ex \<Rightarrow> (Inl ex, [])
      | None \<Rightarrow>
          (case monitor_set_input_source e m src of
             Some ex \<Rightarrow>
               (case monitor_exit e m of
                  Some ex' \<Rightarrow> (Inl ex', [])
                | None \<Rightarrow> (Inl ex, []))
           | None \<Rightarrow>
               (case monitor_exit e m of
                  Some ex' \<Rightarrow> (Inl ex', [Set_input_source m src])
                | None \<Rightarrow> (Inr (), [Set_input_source m src]))))"

text \<open>The two \<^verbatim>\<open>except\<close> clauses of \<^verbatim>\<open>switch_input\<close>: they differ in the line logged.\<close>

fun switch_input_except :: "exn \<Rightarrow> log_line" where
  "switch_input_except (VCPError msg) = VCP_error_switching_input (VCPError msg)"
| "switch_input_except ex = Error_switching_input ex"

text \<open>
  \<^verbatim>\<open>MonitorController.switch_input\<close>. The membership test stands before the \<^verbatim>\<open>try\<close>, so
  what it raises leaves the method; what the \<^verbatim>\<open>try\<close> block raises ends in the log.
\<close>

definition switch_input ::
  "env \<Rightarrow> monitor_controller \<Rightarrow> cfg_value \<Rightarrow> (exn + bool) \<times> monitor_controller \<times> effect list" where
  "switch_input e c input_name =
     (case (if monitor c = None
            then (case init_monitor e c of
                    (c', t) \<Rightarrow> (c', Log No_monitor_connected_reconnecting # t))
            else (c, [])) of
        (c1, t1) \<Rightarrow>
          (case monitor c1 of
             None \<Rightarrow> (Inr False, c1, t1)
           | Some m \<Rightarrow>
               (case not_in_INPUT_SOURCES input_name of
                  Inl ex \<Rightarrow> (Inl ex, c1, t1)
                | Inr True \<Rightarrow> (Inr False, c1, t1 @ [Log (Unknown_input_source input_name)])
                | Inr False \<Rightarrow>
                    (case (case INPUT_SOURCES_getitem input_name of
                             Inl ex \<Rightarrow> (Inl ex, [])
                           | Inr input_source \<Rightarrow>
                               with_monitor_set_input_source e m input_source) of
                       (Inr _, t2) \<Rightarrow>
                         (Inr True, c1, t1 @ t2 @ [Log (Switched_monitor_to input_name)])
                     | (Inl ex, t2) \<Rightarrow>
                         (Inr False, c1, t1 @ t2 @ [Log (switch_input_except ex)])))))"

section \<open>MonitorSwitcherApp\<close>

text \<open>
  The fields of the application that \<^verbatim>\<open>_on_km_switch\<close> uses; \<open>icon\<close> tells whether
  \<^verbatim>\<open>self.icon\<close> has been set.
\<close>

record app =
  config :: config
  controller :: monitor_controller
  icon :: bool

text \<open>\<^verbatim>\<open>if self.icon: self.icon.notify(...)\<close>.\<close>

definition notify_icon :: "env \<Rightarrow> app \<Rightarrow> notification \<Rightarrow> (exn + unit) \<times> effect list" where
  "notify_icon e a n =
     (if icon a then
        (case icon_notify e n of
           Some ex \<Rightarrow> (Inl ex, [Notify n])
         | None \<Rightarrow> (Inr (), [Notify n]))
      else (Inr (), []))"

text \<open>\<^verbatim>\<open>MonitorSwitcherApp._on_km_switch\<close>.\<close>

definition on_km_switch :: "env \<Rightarrow> string \<Rightarrow> app \<Rightarrow> (exn + unit) \<times> app \<times> effect list" where
  "on_km_switch e machine a =
     (let input_name =
            (if machine = ''home''
             then get (config a) ''home_machine_input'' (JStr ''HDMI-1'')
             else get (config a) ''work_laptop_input'' (JStr ''HDMI-2''));
          t0 = [Log (Switching_to_machine machine)] in
      case switch_input e (controller a) input_name of
        (Inl ex, c', t1) \<Rightarrow> (Inl ex, a\<lparr>controller := c'\<rparr>, t0 @ t1)
      | (Inr success, c', t1) \<Rightarrow>
          if success then
            (case set_config e (config a) ''last_active_machine'' (JStr machine) of
               (cfg', t2) \<Rightarrow>
                 (case notify_icon e a (Switched_to machine input_name) of
                    (r, t3) \<Rightarrow> (r, a\<lparr>controller := c', config := cfg'\<rparr>, t0 @ t1 @ t2 @ t3)))
          else
            (case notify_icon e a (Failed_to_switch input_name) of
               (r, t3) \<Rightarrow> (r, a\<lparr>controller := c'\<rparr>, t0 @ t1 @ t3)))"

text \<open>How often \<^verbatim>\<open>get_monitors()\<close> was called.\<close>

fun connects :: "effect list \<Rightarrow> nat" where
  "connects [] = 0"
| "connects (Get_monitors # t) = Suc (connects t)"
| "connects (_ # t) = connects t"

section \<open>Properties of the presence sampler\<close>

lemma count_input_devices_returns:
  "\<exists>n ls. count_input_devices w = (Inr n, ls)"
  by (simp add: count_input_devices_def split: sum.split)

lemma count_input_devices_score:
  "count_input_devices w = (Inr (presence_score w), snd (count_input_devices w))"
  using count_input_devices_returns [of w] by auto

lemma emitted_append [simp]: "emitted (t @ u) = emitted t @ emitted u"
  by (induction t rule: emitted.induct) simp_all

lemma emitted_map_Log [simp]: "emitted (map Log ls) = []"
  by (induction ls) simp_all

lemma sleeps_append [simp]: "sleeps (t @ u) = sleeps t @ sleeps u"
  by (induction t rule: sleeps.induct) simp_all

lemma sleeps_map_Log [simp]: "sleeps (map Log ls) = []"
  by (induction ls) simp_all

text \<open>
  Claim C5, as stated, fails: when the mouse-button query answers 3 and a keyboard-state
  query fails, \<^verbatim>\<open>_count_input_devices\<close> returns 3, not 0, and logs nothing.
\<close>

theorem count_input_devices_keyboard_failure:
  "count_input_devices
     \<lparr>GetSystemMetrics = (\<lambda>_. Inr 3), GetKeyState = (\<lambda>_. Inl (Exception ''no keyboard''))\<rparr>
   = (Inr 3, [])"
  by (simp add: count_input_devices_def count_input_devices_try_def)

text \<open>
  Claim C5, amended: \<^verbatim>\<open>_count_input_devices\<close> never raises. When the
  \<^verbatim>\<open>GetSystemMetrics\<close> query fails it returns 0 and logs the failure. When that query
  answers \<open>n\<close>, it returns \<open>n + 2\<close> if the three \<^verbatim>\<open>GetKeyState\<close> queries succeed and \<open>n\<close>
  if one of them fails, and logs nothing in either case.
\<close>

theorem count_input_devices_never_raises:
  "(\<exists>n. fst (count_input_devices w) = Inr n) \<and>
   (\<forall>e. GetSystemMetrics w SM_CMOUSEBUTTONS = Inl e \<longrightarrow>
        count_input_devices w = (Inr 0, [Error_counting_devices e])) \<and>
   (\<forall>n. GetSystemMetrics w SM_CMOUSEBUTTONS = Inr n \<longrightarrow>
        count_input_devices w =
          (Inr (if \<exists>vk \<in> {VK_SHIFT, VK_CONTROL, VK_MENU}. isl (GetKeyState w vk) then n else n + 2), []))"
  by (auto simp: count_input_devices_def count_input_devices_try_def isl_def split: sum.splits)

theorem count_input_devices_never_raises_witness:
  "count_input_devices
     \<lparr>GetSystemMetrics = (\<lambda>_. Inl (Exception ''metrics'')), GetKeyState = (\<lambda>_. Inr 0)\<rparr>
     = (Inr 0, [Error_counting_devices (Exception ''metrics'')]) \<and>
   count_input_devices
     \<lparr>GetSystemMetrics = (\<lambda>_. Inr 3), GetKeyState = (\<lambda>_. Inr 0)\<rparr> = (Inr 5, [])"
  using count_input_devices_never_raises
          [of "\<lparr>GetSystemMetrics = (\<lambda>_. Inl (Exception ''metrics'')), GetKeyState = (\<lambda>_. Inr 0)\<rparr>"]
        count_input_devices_never_raises
          [of "\<lparr>GetSystemMetrics = (\<lambda>_. Inr 3), GetKeyState = (\<lambda>_. Inr 0)\<rparr>"]
  by (simp add: isl_def)

section \<open>Properties of one tick of the detector\<close>

text \<open>
  Claim C1: in every tick, with the score of the tick and the tracked count compared, a
  difference of at least one makes the candidate \<open>''home''\<close> when the score went up and
  \<open>''work''\<close> otherwise; the callback is called, with the candidate, exactly when the
  candidate differs from the tracked state; a difference of zero calls nothing and leaves
  the detector as it was.
\<close>

theorem monitor_tick_transition_rule:
  assumes "monitor_tick cb w d s = (d', s', t)"
  shows "(\<bar>presence_score w - last_device_count d\<bar> \<ge> 1 \<longrightarrow>
            emitted t =
              (if (if presence_score w > last_device_count d then ''home'' else ''work'') \<noteq> last_state d
               then [if presence_score w > last_device_count d then ''home'' else ''work'']
               else []) \<and>
            last_state d' = (if presence_score w > last_device_count d then ''home'' else ''work''))
       \<and> (presence_score w - last_device_count d = 0 \<longrightarrow>
            emitted t = [] \<and> d' = d \<and> s' = s)"
  using assms count_input_devices_score [of w]
  apply (cases "count_input_devices w")
  apply (auto simp: monitor_tick_def monitor_tick_try_def Let_def split: if_splits sum.splits prod.splits)
  done

theorem monitor_tick_transition_rule_witness:
  "monitor_tick (\<lambda>m s. (Inr (), s))
     \<lparr>GetSystemMetrics = (\<lambda>_. Inr 2), GetKeyState = (\<lambda>_. Inr 0)\<rparr>
     \<lparr>running = True, last_device_count = 5, last_state = ''home''\<rparr> ()
   = (\<lparr>running = True, last_device_count = 4, last_state = ''work''\<rparr>, (),
      [Log (KM_switch_detected ''home'' ''work''), Callback ''work'', Sleep 2]) \<and>
   emitted [Log (KM_switch_detected ''home'' ''work''), Callback ''work'', Sleep 2] = [''work''] \<and>
   monitor_tick (\<lambda>m s. (Inr (), s))
     \<lparr>GetSystemMetrics = (\<lambda>_. Inr 3), GetKeyState = (\<lambda>_. Inr 0)\<rparr>
     \<lparr>running = True, last_device_count = 5, last_state = ''work''\<rparr> ()
   = (\<lparr>running = True, last_device_count = 5, last_state = ''work''\<rparr>, (), [Sleep 2])"
  using monitor_tick_transition_rule
    [of "\<lambda>m s. (Inr (), s)" "\<lparr>GetSystemMetrics = (\<lambda>_. Inr 2), GetKeyState = (\<lambda>_. Inr 0)\<rparr>"
        "\<lparr>running = True, last_device_count = 5, last_state = ''home''\<rparr>" "()"
        "\<lparr>running = True, last_device_count = 4, last_state = ''work''\<rparr>" "()"
        "[Log (KM_switch_detected ''home'' ''work''), Callback ''work'', Sleep 2]"]
   monitor_tick_transition_rule
    [of "\<lambda>m s. (Inr (), s)" "\<lparr>GetSystemMetrics = (\<lambda>_. Inr 3), GetKeyState = (\<lambda>_. Inr 0)\<rparr>"
        "\<lparr>running = True, last_device_count = 5, last_state = ''work''\<rparr>" "()"
        "\<lparr>running = True, last_device_count = 5, last_state = ''work''\<rparr>" "()"
        "[Sleep 2]"]
  by (simp add: monitor_tick_def monitor_tick_try_def Let_def count_input_devices_def
        count_input_devices_try_def)

lemma monitor_tick_try_normal:
  assumes "monitor_tick_try cb w d s = (Inr u, d', s', t)"
  shows "last_device_count d' = presence_score w \<and> sleeps t = [2]"
  using assms count_input_devices_score [of w]
  apply (cases "count_input_devices w")
  apply (auto simp: monitor_tick_try_def Let_def split: if_splits sum.splits prod.splits)
  done

lemma monitor_tick_try_raises:
  assumes "monitor_tick_try cb w d s = (Inl e, d', s', t)"
  shows "sleeps t = [] \<and> emitted t \<noteq> []"
  using assms count_input_devices_score [of w]
  apply (cases "count_input_devices w")
  apply (auto simp: monitor_tick_try_def Let_def split: if_splits sum.splits prod.splits)
  done

text \<open>
  Claim C9 fails on the code: in a tick whose score is 4, from a tracked count of 5 and the
  state \<open>''home''\<close>, with a callback that raises, \<^verbatim>\<open>last_state\<close> becomes \<open>''work''\<close> and
  the \<^verbatim>\<open>except\<close> handler runs, but \<^verbatim>\<open>last_device_count\<close> is still 5 when the tick ends.
\<close>

theorem monitor_tick_callback_raises_stale_count:
  "presence_score \<lparr>GetSystemMetrics = (\<lambda>_. Inr 2), GetKeyState = (\<lambda>_. Inr 0)\<rparr> = 4 \<and>
   monitor_tick (\<lambda>m s. (Inl (Exception ''notify''), s))
     \<lparr>GetSystemMetrics = (\<lambda>_. Inr 2), GetKeyState = (\<lambda>_. Inr 0)\<rparr>
     \<lparr>running = True, last_device_count = 5, last_state = ''home''\<rparr> ()
   = (\<lparr>running = True, last_device_count = 5, last_state = ''work''\<rparr>, (),
      [Log (KM_switch_detected ''home'' ''work''), Callback ''work'',
       Log (Error_in_monitor_loop (Exception ''notify'')), Sleep 5])"
  by (simp add: monitor_tick_def monitor_tick_try_def Let_def count_input_devices_def
        count_input_devices_try_def)

section \<open>Properties of the loop\<close>

lemma monitor_tick_running:
  "monitor_tick cb w d s = (d', s', t) \<Longrightarrow> running d' = running d"
  by (cases "count_input_devices w")
     (auto simp: monitor_tick_def monitor_tick_try_def Let_def split: if_splits sum.splits prod.splits)

lemma monitor_tick_sleeps:
  "monitor_tick cb w d s = (d', s', t) \<Longrightarrow> length (sleeps t) = 1"
  by (cases "count_input_devices w")
     (auto simp: monitor_tick_def monitor_tick_try_def Let_def split: if_splits sum.splits prod.splits)

lemma run_ticks_sleeps:
  "running d \<Longrightarrow> run_ticks cb ws d s = (d', s', t) \<Longrightarrow> length (sleeps t) = length ws \<and> running d'"
proof (induction ws arbitrary: d s d' s' t)
  case Nil
  then show ?case by simp
next
  case (Cons w ws)
  obtain d1 s1 t1 where tick: "monitor_tick cb w d s = (d1, s1, t1)"
    by (cases "monitor_tick cb w d s") auto
  obtain d2 s2 t2 where rest: "run_ticks cb ws d1 s1 = (d2, s2, t2)"
    by (cases "run_ticks cb ws d1 s1") auto
  from Cons.prems tick rest have eq: "d' = d2" "t = t1 @ t2" by simp_all
  from tick Cons.prems(1) have "running d1" by (simp add: monitor_tick_running)
  from Cons.IH [OF this rest] monitor_tick_sleeps [OF tick] eq
  show ?case by simp
qed

text \<open>
  Claim C4, amended: an exception within a tick is logged and the loop goes on to the next
  tick; every failed tick, the first one included, is followed by a sleep of five seconds
  and every successful tick by the default sleep of two seconds; a running loop makes as
  many sleeps as it has ticks and is still running after them.
\<close>

theorem monitor_loop_error_handling:
  "(\<forall>e d1 s1 t1. monitor_tick_try cb w d s = (Inl e, d1, s1, t1) \<longrightarrow>
       monitor_tick cb w d s = (d1, s1, t1 @ [Log (Error_in_monitor_loop e), Sleep 5]) \<and>
       sleeps (snd (snd (monitor_tick cb w d s))) = [5]) \<and>
   (\<forall>u d1 s1 t1. monitor_tick_try cb w d s = (Inr u, d1, s1, t1) \<longrightarrow>
       monitor_tick cb w d s = (d1, s1, t1) \<and>
       sleeps (snd (snd (monitor_tick cb w d s))) = [2]) \<and>
   (running d \<longrightarrow>
       length (sleeps (snd (snd (run_ticks cb ws d s)))) = length ws \<and>
       running (fst (run_ticks cb ws d s)))"
proof (intro conjI allI impI)
  fix e d1 s1 t1
  assume a: "monitor_tick_try cb w d s = (Inl e, d1, s1, t1)"
  then show "monitor_tick cb w d s = (d1, s1, t1 @ [Log (Error_in_monitor_loop e), Sleep 5])"
    by (simp add: monitor_tick_def)
  with monitor_tick_try_raises [OF a]
  show "sleeps (snd (snd (monitor_tick cb w d s))) = [5]" by simp
next
  fix u d1 s1 t1
  assume a: "monitor_tick_try cb w d s = (Inr u, d1, s1, t1)"
  then show "monitor_tick cb w d s = (d1, s1, t1)"
    by (simp add: monitor_tick_def)
  with monitor_tick_try_normal [OF a]
  show "sleeps (snd (snd (monitor_tick cb w d s))) = [2]" by simp
next
  assume r: "running d"
  obtain d2 s2 t2 where rest: "run_ticks cb ws d s = (d2, s2, t2)"
    by (cases "run_ticks cb ws d s") auto
  from run_ticks_sleeps [OF r rest] rest
  show "length (sleeps (snd (snd (run_ticks cb ws d s)))) = length ws"
    and "running (fst (run_ticks cb ws d s))" by simp_all
qed

theorem monitor_loop_error_handling_witness:
  "monitor_tick_try (\<lambda>m s. (Inl (Exception ''notify''), s))
     \<lparr>GetSystemMetrics = (\<lambda>_. Inr 2), GetKeyState = (\<lambda>_. Inr 0)\<rparr>
     \<lparr>running = True, last_device_count = 5, last_state = ''home''\<rparr> ()
   = (Inl (Exception ''notify''),
      \<lparr>running = True, last_device_count = 5, last_state = ''work''\<rparr>, (),
      [Log (KM_switch_detected ''home'' ''work''), Callback ''work'']) \<and>
   sleeps (snd (snd (monitor_tick (\<lambda>m s. (Inl (Exception ''notify''), s))
     \<lparr>GetSystemMetrics = (\<lambda>_. Inr 2), GetKeyState = (\<lambda>_. Inr 0)\<rparr>
     \<lparr>running = True, last_device_count = 5, last_state = ''home''\<rparr> ()))) = [5] \<and>
   running \<lparr>running = True, last_device_count = 5, last_state = ''home''\<rparr> \<and>
   length (sleeps (snd (snd (run_ticks (\<lambda>m s. (Inl (Exception ''notify''), s))
     [\<lparr>GetSystemMetrics = (\<lambda>_. Inr 2), GetKeyState = (\<lambda>_. Inr 0)\<rparr>,
      \<lparr>GetSystemMetrics = (\<lambda>_. Inr 1), GetKeyState = (\<lambda>_. Inr 0)\<rparr>]
     \<lparr>running = True, last_device_count = 5, last_state = ''home''\<rparr> ())))) = 2"
  using monitor_loop_error_handling
    [of "\<lambda>m s. (Inl (Exception ''notify''), s)"
        "\<lparr>GetSystemMetrics = (\<lambda>_. Inr 2), GetKeyState = (\<lambda>_. Inr 0)\<rparr>"
        "\<lparr>running = True, last_device_count = 5, last_state = ''home''\<rparr>" "()"
        "[\<lparr>GetSystemMetrics = (\<lambda>_. Inr 2), GetKeyState = (\<lambda>_. Inr 0)\<rparr>,
          \<lparr>GetSystemMetrics = (\<lambda>_. Inr 1), GetKeyState = (\<lambda>_. Inr 0)\<rparr>]"]
  by (simp add: monitor_tick_def monitor_tick_try_def Let_def count_input_devices_def
        count_input_devices_try_def)

text \<open>
  Claim C4, as stated, fails: the very first failing tick, with no failure before it, is
  already followed by the five-second sleep.
\<close>

theorem monitor_loop_first_failure_sleeps_five:
  "sleeps (snd (snd (run_ticks (\<lambda>m s. (Inl (Exception ''notify''), s))
     [\<lparr>GetSystemMetrics = (\<lambda>_. Inr 2), GetKeyState = (\<lambda>_. Inr 0)\<rparr>]
     \<lparr>running = True, last_device_count = 5, last_state = ''home''\<rparr> ()))) = [5]"
  by (simp add: monitor_tick_def monitor_tick_try_def Let_def count_input_devices_def
        count_input_devices_try_def)

lemma monitor_tick_emits:
  assumes "monitor_tick cb w d s = (d', s', t)"
  shows "(emitted t = [] \<and> last_state d' = last_state d) \<or>
         (emitted t = [last_state d'] \<and> last_state d' \<noteq> last_state d)"
  using assms
  by (cases "count_input_devices w")
     (auto simp: monitor_tick_def monitor_tick_try_def Let_def split: if_splits sum.splits prod.splits)

lemma monitor_tick_flat:
  assumes "presence_score w = last_device_count d"
  shows "\<exists>t. monitor_tick cb w d s = (d, s, t) \<and> emitted t = []"
  using assms count_input_devices_score [of w]
  by (cases "count_input_devices w")
     (auto simp: monitor_tick_def monitor_tick_try_def Let_def split: if_splits sum.splits prod.splits)

lemma monitor_tick_debounce:
  assumes "monitor_tick cb w d s = (d', s', t)"
    and "last_device_count d = p \<or>
         last_state d = (if p > last_device_count d then ''home'' else ''work'')"
  shows "(last_device_count d' = presence_score w \<or>
          last_state d' = (if presence_score w > last_device_count d' then ''home'' else ''work''))
       \<and> length (emitted t) \<le> (if presence_score w \<noteq> p then 1 else 0)"
  using assms count_input_devices_score [of w]
  by (cases "count_input_devices w")
     (auto simp: monitor_tick_def monitor_tick_try_def Let_def split: if_splits sum.splits prod.splits)

lemma run_ticks_Cons:
  assumes "run_ticks cb (w # ws) d s = (d', s', t)"
  shows "(\<not> running d \<and> d' = d \<and> s' = s \<and> t = []) \<or>
         (\<exists>d1 s1 t1 t2. monitor_tick cb w d s = (d1, s1, t1) \<and>
             run_ticks cb ws d1 s1 = (d', s', t2) \<and> t = t1 @ t2)"
  using assms by (auto split: if_splits prod.splits)

lemma run_ticks_alternate:
  "run_ticks cb ws d s = (d', s', t) \<Longrightarrow>
     distinct_adj (last_state d # emitted t) \<and> last_state d' = last (last_state d # emitted t)"
proof (induction ws arbitrary: d s t)
  case Nil
  then show ?case by simp
next
  case (Cons w ws)
  from run_ticks_Cons [OF Cons.prems] show ?case
  proof (elim disjE exE conjE)
    assume "d' = d" "t = []"
    then show ?thesis by simp
  next
    fix d1 s1 t1 t2
    assume tick: "monitor_tick cb w d s = (d1, s1, t1)"
      and rest: "run_ticks cb ws d1 s1 = (d', s', t2)" and t: "t = t1 @ t2"
    from Cons.IH [OF rest] monitor_tick_emits [OF tick] t
    show ?thesis by (auto simp: distinct_adj_Cons)
  qed
qed

lemma run_ticks_bound:
  "run_ticks cb ws d s = (d', s', t) \<Longrightarrow>
   last_device_count d = p \<or> last_state d = (if p > last_device_count d then ''home'' else ''work'') \<Longrightarrow>
     length (emitted t) \<le>
       length (filter (\<lambda>(a, b). a \<noteq> b) (zip (p # map presence_score ws) (map presence_score ws)))"
proof (induction ws arbitrary: d s t p)
  case Nil
  then show ?case by simp
next
  case (Cons w ws)
  from run_ticks_Cons [OF Cons.prems(1)] show ?case
  proof (elim disjE exE conjE)
    assume "t = []"
    then show ?thesis by simp
  next
    fix d1 s1 t1 t2
    assume tick: "monitor_tick cb w d s = (d1, s1, t1)"
      and rest: "run_ticks cb ws d1 s1 = (d', s', t2)" and t: "t = t1 @ t2"
    from monitor_tick_debounce [OF tick Cons.prems(2)]
    have inv: "last_device_count d1 = presence_score w \<or>
          last_state d1 = (if presence_score w > last_device_count d1 then ''home'' else ''work'')"
      and one: "length (emitted t1) \<le> (if presence_score w \<noteq> p then 1 else 0)" by simp_all
    from Cons.IH [OF rest inv] one t
    show ?thesis by (auto split: if_splits)
  qed
qed

lemma run_ticks_flat:
  "run_ticks cb ws d s = (d', s', t) \<Longrightarrow>
   \<forall>w \<in> set ws. presence_score w = last_device_count d \<Longrightarrow> emitted t = [] \<and> d' = d \<and> s' = s"
proof (induction ws arbitrary: t)
  case Nil
  then show ?case by simp
next
  case (Cons w ws)
  from Cons.prems(2) have "presence_score w = last_device_count d" by simp
  from monitor_tick_flat [OF this, of cb s]
  obtain t1 where tick: "monitor_tick cb w d s = (d, s, t1)" and e1: "emitted t1 = []" by blast
  from run_ticks_Cons [OF Cons.prems(1)] show ?case
  proof (elim disjE exE conjE)
    assume "d' = d" "s' = s" "t = []"
    then show ?thesis by simp
  next
    fix d1 s1 t1' t2
    assume tick': "monitor_tick cb w d s = (d1, s1, t1')"
      and rest: "run_ticks cb ws d1 s1 = (d', s', t2)" and t: "t = t1' @ t2"
    from tick tick' have eq: "d1 = d" "s1 = s" "t1' = t1" by simp_all
    from Cons.IH [of t2] rest eq Cons.prems(2) e1 t
    show ?thesis by simp
  qed
qed

text \<open>
  Claim C2: over every sequence of samples, each event differs from the state tracked
  before it, so no two consecutive events name the same machine and the first differs
  from the starting state; the tracked state is always the last event; there are at most
  as many events as changes of the score from one sample to the next; and scores that all
  repeat the tracked count emit nothing.
\<close>

theorem run_ticks_no_duplicate_events:
  assumes "run_ticks cb ws d s = (d', s', t)"
  shows "distinct_adj (last_state d # emitted t) \<and>
         last_state d' = last (last_state d # emitted t) \<and>
         length (emitted t) \<le>
           length (filter (\<lambda>(a, b). a \<noteq> b)
             (zip (last_device_count d # map presence_score ws) (map presence_score ws))) \<and>
         ((\<forall>w \<in> set ws. presence_score w = last_device_count d) \<longrightarrow> emitted t = [])"
  using run_ticks_alternate [OF assms] run_ticks_bound [OF assms, of "last_device_count d"]
    run_ticks_flat [OF assms]
  by simp

theorem run_ticks_no_duplicate_events_witness:
  "run_ticks (\<lambda>m s. (Inr (), s))
     [\<lparr>GetSystemMetrics = (\<lambda>_. Inr 3), GetKeyState = (\<lambda>_. Inr 0)\<rparr>,
      \<lparr>GetSystemMetrics = (\<lambda>_. Inr 3), GetKeyState = (\<lambda>_. Inr 0)\<rparr>]
     \<lparr>running = True, last_device_count = 5, last_state = ''home''\<rparr> ()
   = (\<lparr>running = True, last_device_count = 5, last_state = ''home''\<rparr>, (), [Sleep 2, Sleep 2]) \<and>
   presence_score \<lparr>GetSystemMetrics = (\<lambda>_. Inr 3), GetKeyState = (\<lambda>_. Inr 0)\<rparr> = 5 \<and>
   emitted [Sleep 2, Sleep 2] = []"
  using run_ticks_no_duplicate_events
    [of "\<lambda>m s. (Inr (), s)"
        "[\<lparr>GetSystemMetrics = (\<lambda>_. Inr 3), GetKeyState = (\<lambda>_. Inr 0)\<rparr>,
          \<lparr>GetSystemMetrics = (\<lambda>_. Inr 3), GetKeyState = (\<lambda>_. Inr 0)\<rparr>]"
        "\<lparr>running = True, last_device_count = 5, last_state = ''home''\<rparr>" "()"
        "\<lparr>running = True, last_device_count = 5, last_state = ''home''\<rparr>" "()"
        "[Sleep 2, Sleep 2]"]
  by (simp add: monitor_tick_def monitor_tick_try_def Let_def count_input_devices_def
        count_input_devices_try_def)

lemma monitor_loop_score:
  "monitor_loop cb w0 ws d s =
     (case run_ticks cb ws (d\<lparr>last_device_count := presence_score w0\<rparr>) s of
        (d', s', t) \<Rightarrow> (Inr (), d', s', map Log (snd (count_input_devices w0)) @ t))"
proof -
  obtain n ls where "count_input_devices w0 = (Inr n, ls)"
    using count_input_devices_returns by blast
  then show ?thesis by (simp add: monitor_loop_def)
qed

lemma monitor_tick_score:
  "monitor_tick cb w d s =
     (let c = presence_score w; ls = map Log (snd (count_input_devices w));
          n = (if c > last_device_count d then ''home'' else ''work'') in
      if c = last_device_count d then (d, s, ls @ [Sleep 2])
      else if n = last_state d then (d\<lparr>last_device_count := c\<rparr>, s, ls @ [Sleep 2])
      else (d\<lparr>last_state := n,
               last_device_count := (if isl (fst (cb n s)) then last_device_count d else c)\<rparr>,
            snd (cb n s),
            ls @ [Log (KM_switch_detected (last_state d) n), Callback n] @
              (if isl (fst (cb n s))
               then [Log (Error_in_monitor_loop (projl (fst (cb n s)))), Sleep 5]
               else [Sleep 2])))"
proof -
  obtain c ls where "count_input_devices w = (Inr c, ls)"
    using count_input_devices_returns by blast
  then show ?thesis
    by (cases "cb (if c > last_device_count d then ''home'' else ''work'') s")
       (auto simp: monitor_tick_def monitor_tick_try_def Let_def split: sum.splits)
qed

text \<open>
  Claim C3: with the first sample as the starting count, whatever the callback does, the
  scores 5, 5, 5 from \<open>''home''\<close> emit nothing; 5, 4 from \<open>''home''\<close> emit \<open>''work''\<close> once;
  4, 5 from \<open>''work''\<close> emit \<open>''home''\<close> once; 5, 4, 4, 5 from \<open>''home''\<close> emit
  \<open>''work''\<close> then \<open>''home''\<close>, with nothing on the repeated 4; and 5, 4, 3 from \<open>''home''\<close>
  emit \<open>''work''\<close> once, on the first decrease, the state staying \<open>''work''\<close>.
\<close>

theorem monitor_loop_scenarios:
  "(presence_score w0 = 5 \<and> presence_score w1 = 5 \<and> presence_score w2 = 5 \<longrightarrow>
      emitted (snd (snd (snd (monitor_loop cb w0 [w1, w2] (start detector_init) s)))) = [])
 \<and> (presence_score w0 = 5 \<and> presence_score w1 = 4 \<longrightarrow>
      emitted (snd (snd (snd (monitor_loop cb w0 [w1] (start detector_init) s)))) = [''work''])
 \<and> (presence_score w0 = 4 \<and> presence_score w1 = 5 \<longrightarrow>
      emitted (snd (snd (snd (monitor_loop cb w0 [w1]
        (start (detector_init\<lparr>last_state := ''work''\<rparr>)) s)))) = [''home''])
 \<and> (presence_score w0 = 5 \<and> presence_score w1 = 4 \<and> presence_score w2 = 4 \<and> presence_score w3 = 5 \<longrightarrow>
      emitted (snd (snd (snd (monitor_loop cb w0 [w1] (start detector_init) s)))) = [''work''] \<and>
      emitted (snd (snd (snd (monitor_loop cb w0 [w1, w2] (start detector_init) s)))) = [''work''] \<and>
      emitted (snd (snd (snd (monitor_loop cb w0 [w1, w2, w3] (start detector_init) s)))) = [''work'', ''home''])
 \<and> (presence_score w0 = 5 \<and> presence_score w1 = 4 \<and> presence_score w2 = 3 \<longrightarrow>
      emitted (snd (snd (snd (monitor_loop cb w0 [w1] (start detector_init) s)))) = [''work''] \<and>
      emitted (snd (snd (snd (monitor_loop cb w0 [w1, w2] (start detector_init) s)))) = [''work''] \<and>
      last_state (fst (snd (monitor_loop cb w0 [w1] (start detector_init) s))) = ''work'' \<and>
      last_state (fst (snd (monitor_loop cb w0 [w1, w2] (start detector_init) s))) = ''work'')"
proof (intro conjI)
  show "presence_score w0 = 5 \<and> presence_score w1 = 5 \<and> presence_score w2 = 5 \<longrightarrow>
      emitted (snd (snd (snd (monitor_loop cb w0 [w1, w2] (start detector_init) s)))) = []"
    by (simp add: monitor_loop_score monitor_tick_score start_def detector_init_def Let_def)
  show "presence_score w0 = 5 \<and> presence_score w1 = 4 \<longrightarrow>
      emitted (snd (snd (snd (monitor_loop cb w0 [w1] (start detector_init) s)))) = [''work'']"
    by (simp add: monitor_loop_score monitor_tick_score start_def detector_init_def Let_def)
  show "presence_score w0 = 4 \<and> presence_score w1 = 5 \<longrightarrow>
      emitted (snd (snd (snd (monitor_loop cb w0 [w1]
        (start (detector_init\<lparr>last_state := ''work''\<rparr>)) s)))) = [''home'']"
    by (simp add: monitor_loop_score monitor_tick_score start_def detector_init_def Let_def)
  show "presence_score w0 = 5 \<and> presence_score w1 = 4 \<and> presence_score w2 = 4 \<and> presence_score w3 = 5 \<longrightarrow>
      emitted (snd (snd (snd (monitor_loop cb w0 [w1] (start detector_init) s)))) = [''work''] \<and>
      emitted (snd (snd (snd (monitor_loop cb w0 [w1, w2] (start detector_init) s)))) = [''work''] \<and>
      emitted (snd (snd (snd (monitor_loop cb w0 [w1, w2, w3] (start detector_init) s)))) = [''work'', ''home'']"
    by (simp add: monitor_loop_score monitor_tick_score start_def detector_init_def Let_def)
  show "presence_score w0 = 5 \<and> presence_score w1 = 4 \<and> presence_score w2 = 3 \<longrightarrow>
      emitted (snd (snd (snd (monitor_loop cb w0 [w1] (start detector_init) s)))) = [''work''] \<and>
      emitted (snd (snd (snd (monitor_loop cb w0 [w1, w2] (start detector_init) s)))) = [''work''] \<and>
      last_state (fst (snd (monitor_loop cb w0 [w1] (start detector_init) s))) = ''work'' \<and>
      last_state (fst (snd (monitor_loop cb w0 [w1, w2] (start detector_init) s))) = ''work''"
    by (simp add: monitor_loop_score monitor_tick_score start_def detector_init_def Let_def)
qed

theorem monitor_loop_scenarios_witness:
  "presence_score \<lparr>GetSystemMetrics = (\<lambda>_. Inr 3), GetKeyState = (\<lambda>_. Inr 0)\<rparr> = 5 \<and>
   presence_score \<lparr>GetSystemMetrics = (\<lambda>_. Inr 2), GetKeyState = (\<lambda>_. Inr 0)\<rparr> = 4 \<and>
   presence_score \<lparr>GetSystemMetrics = (\<lambda>_. Inr 1), GetKeyState = (\<lambda>_. Inr 0)\<rparr> = 3 \<and>
   emitted (snd (snd (snd (monitor_loop (\<lambda>m s. (Inr (), s))
     \<lparr>GetSystemMetrics = (\<lambda>_. Inr 3), GetKeyState = (\<lambda>_. Inr 0)\<rparr>
     [\<lparr>GetSystemMetrics = (\<lambda>_. Inr 3), GetKeyState = (\<lambda>_. Inr 0)\<rparr>,
      \<lparr>GetSystemMetrics = (\<lambda>_. Inr 3), GetKeyState = (\<lambda>_. Inr 0)\<rparr>]
     (start detector_init) ())))) = [] \<and>
   emitted (snd (snd (snd (monitor_loop (\<lambda>m s. (Inr (), s))
     \<lparr>GetSystemMetrics = (\<lambda>_. Inr 3), GetKeyState = (\<lambda>_. Inr 0)\<rparr>
     [\<lparr>GetSystemMetrics = (\<lambda>_. Inr 2), GetKeyState = (\<lambda>_. Inr 0)\<rparr>]
     (start detector_init) ())))) = [''work''] \<and>
   emitted (snd (snd (snd (monitor_loop (\<lambda>m s. (Inr (), s))
     \<lparr>GetSystemMetrics = (\<lambda>_. Inr 2), GetKeyState = (\<lambda>_. Inr 0)\<rparr>
     [\<lparr>GetSystemMetrics = (\<lambda>_. Inr 3), GetKeyState = (\<lambda>_. Inr 0)\<rparr>]
     (start (detector_init\<lparr>last_state := ''work''\<rparr>)) ())))) = [''home''] \<and>
   emitted (snd (snd (snd (monitor_loop (\<lambda>m s. (Inr (), s))
     \<lparr>GetSystemMetrics = (\<lambda>_. Inr 3), GetKeyState = (\<lambda>_. Inr 0)\<rparr>
     [\<lparr>GetSystemMetrics = (\<lambda>_. Inr 2), GetKeyState = (\<lambda>_. Inr 0)\<rparr>,
      \<lparr>GetSystemMetrics = (\<lambda>_. Inr 2), GetKeyState = (\<lambda>_. Inr 0)\<rparr>,
      \<lparr>GetSystemMetrics = (\<lambda>_. Inr 3), GetKeyState = (\<lambda>_. Inr 0)\<rparr>]
     (start detector_init) ())))) = [''work'', ''home''] \<and>
   emitted (snd (snd (snd (monitor_loop (\<lambda>m s. (Inr (), s))
     \<lparr>GetSystemMetrics = (\<lambda>_. Inr 3), GetKeyState = (\<lambda>_. Inr 0)\<rparr>
     [\<lparr>GetSystemMetrics = (\<lambda>_. Inr 2), GetKeyState = (\<lambda>_. Inr 0)\<rparr>,
      \<lparr>GetSystemMetrics = (\<lambda>_. Inr 1), GetKeyState = (\<lambda>_. Inr 0)\<rparr>]
     (start detector_init) ())))) = [''work'']"
proof -
  let ?five = "\<lparr>GetSystemMetrics = (\<lambda>_. Inr 3), GetKeyState = (\<lambda>_. Inr 0)\<rparr> :: os"
  let ?four = "\<lparr>GetSystemMetrics = (\<lambda>_. Inr 2), GetKeyState = (\<lambda>_. Inr 0)\<rparr> :: os"
  let ?three = "\<lparr>GetSystemMetrics = (\<lambda>_. Inr 1), GetKeyState = (\<lambda>_. Inr 0)\<rparr> :: os"
  let ?cb = "(\<lambda>m s. (Inr (), s)) :: unit callback"
  have five: "presence_score ?five = 5" and four: "presence_score ?four = 4"
    and three: "presence_score ?three = 3"
    by (simp_all add: count_input_devices_def count_input_devices_try_def)
  from five four three
    monitor_loop_scenarios [of ?five ?five ?five ?cb "()" ?five]
    monitor_loop_scenarios [of ?five ?four ?five ?cb "()" ?five]
    monitor_loop_scenarios [of ?four ?five ?five ?cb "()" ?five]
    monitor_loop_scenarios [of ?five ?four ?four ?cb "()" ?five]
    monitor_loop_scenarios [of ?five ?four ?three ?cb "()" ?five]
  show ?thesis by simp
qed

section \<open>Properties of the monitor controller\<close>

lemma connects_append [simp]: "connects (t @ u) = connects t + connects u"
  by (induction t rule: connects.induct) simp_all

lemma init_monitor_connects: "connects (snd (init_monitor e c)) = 1"
  by (simp add: init_monitor_def split: sum.split)

lemma init_monitor_failed:
  "monitor c = None \<Longrightarrow> monitor (fst (init_monitor e c)) = None \<Longrightarrow> fst (init_monitor e c) = c"
  by (auto simp: init_monitor_def split: sum.splits if_splits)

lemma with_monitor_connects [simp]: "connects (snd (with_monitor_set_input_source e m src)) = 0"
  by (simp add: with_monitor_set_input_source_def split: option.split)

lemma lookup_hashable: "input_sources_lookup name = Some src \<Longrightarrow> hashable name"
  by (cases name) simp_all

lemma switch_input_unfold:
  "switch_input e c name =
     (let c1 = (if monitor c = None then fst (init_monitor e c) else c);
          t1 = (if monitor c = None
                then Log No_monitor_connected_reconnecting # snd (init_monitor e c) else [])
      in case monitor c1 of
           None \<Rightarrow> (Inr False, c1, t1)
         | Some m \<Rightarrow>
             if \<not> hashable name then (Inl TypeError, c1, t1)
             else (case input_sources_lookup name of
                     None \<Rightarrow> (Inr False, c1, t1 @ [Log (Unknown_input_source name)])
                   | Some src \<Rightarrow>
                       (case with_monitor_set_input_source e m src of
                          (Inr u, t2) \<Rightarrow>
                            (Inr True, c1, t1 @ t2 @ [Log (Switched_monitor_to name)])
                        | (Inl ex, t2) \<Rightarrow>
                            (Inr False, c1, t1 @ t2 @ [Log (switch_input_except ex)]))))"
  by (cases "init_monitor e c")
     (auto simp: switch_input_def not_in_INPUT_SOURCES_def INPUT_SOURCES_getitem_def Let_def
           split: option.split sum.split prod.split bool.split)

lemma switch_input_live:
  "monitor c = Some m \<Longrightarrow>
   switch_input e c name =
     (if \<not> hashable name then (Inl TypeError, c, [])
      else (case input_sources_lookup name of
        None \<Rightarrow> (Inr False, c, [Log (Unknown_input_source name)])
      | Some src \<Rightarrow>
          (case with_monitor_set_input_source e m src of
             (Inr u, t2) \<Rightarrow> (Inr True, c, t2 @ [Log (Switched_monitor_to name)])
           | (Inl ex, t2) \<Rightarrow> (Inr False, c, t2 @ [Log (switch_input_except ex)]))))"
  by (auto simp: switch_input_unfold split: option.split sum.split prod.split)

lemma switch_input_absent:
  "monitor c = None \<Longrightarrow>
   switch_input e c name =
     (case monitor (fst (init_monitor e c)) of
        None \<Rightarrow> (Inr False, fst (init_monitor e c),
                  Log No_monitor_connected_reconnecting # snd (init_monitor e c))
      | Some m \<Rightarrow>
          (case switch_input e (fst (init_monitor e c)) name of
             (r, c', t) \<Rightarrow>
               (r, c', Log No_monitor_connected_reconnecting # snd (init_monitor e c) @ t)))"
  by (cases "monitor (fst (init_monitor e c))")
     (auto simp: switch_input_unfold [of e c] switch_input_live Let_def
           split: option.split sum.split prod.split)

lemma switch_input_live_connects:
  "monitor c = Some m \<Longrightarrow> connects (snd (snd (switch_input e c name))) = 0 \<and>
     fst (snd (switch_input e c name)) = c"
  by (cases "with_monitor_set_input_source e m (the (input_sources_lookup name))")
     (auto simp: switch_input_live with_monitor_set_input_source_def
           split: option.splits sum.splits prod.splits)

text \<open>
  Claim C6: a call of \<^verbatim>\<open>switch_input\<close> without a monitor handle calls \<^verbatim>\<open>get_monitors()\<close>
  exactly once; when that reconnect leaves the handle absent, the call returns \<open>False\<close>
  without raising and leaves the controller as it was, so the next call reconnects again,
  once, and ends with the handle its own reconnect finds.
\<close>

theorem switch_input_reconnects_once:
  assumes "monitor c = None"
    and "switch_input e1 c name1 = (r1, c1, t1)"
    and "switch_input e2 c1 name2 = (r2, c2, t2)"
  shows "connects t1 = 1 \<and>
         (monitor (fst (init_monitor e1 c)) = None \<longrightarrow>
            r1 = Inr False \<and> c1 = c \<and> connects t2 = 1 \<and>
            monitor c2 = monitor (fst (init_monitor e2 c)))"
proof -
  have one: "connects (snd (snd (switch_input e c name))) = 1 \<and>
             monitor (fst (snd (switch_input e c name))) = monitor (fst (init_monitor e c))"
    for e name
  proof (cases "monitor (fst (init_monitor e c))")
    case None
    with assms(1) show ?thesis
      by (simp add: switch_input_absent init_monitor_connects)
  next
    case (Some m)
    from switch_input_live_connects [OF Some, of e name] Some assms(1) show ?thesis
      by (auto simp: switch_input_absent init_monitor_connects split: prod.split)
  qed
  from one [of e1 name1] assms(2) have c1: "connects t1 = 1" by simp
  moreover have "r1 = Inr False \<and> c1 = c \<and> connects t2 = 1 \<and>
            monitor c2 = monitor (fst (init_monitor e2 c))"
    if failed: "monitor (fst (init_monitor e1 c)) = None"
  proof -
    from failed assms(1,2) have "r1 = Inr False" "c1 = c"
      by (simp_all add: switch_input_absent init_monitor_failed)
    with one [of e2 name2] assms(3) show ?thesis by simp
  qed
  ultimately show ?thesis by blast
qed

theorem switch_input_reconnects_once_witness:
  "monitor \<lparr>monitor_index = 0, monitor = None\<rparr> = None \<and>
   monitor (fst (init_monitor
     \<lparr>get_monitors = Inl (Exception ''no DDC''), monitor_enter = (\<lambda>_. None),
      monitor_set_input_source = (\<lambda>_ _. None), monitor_exit = (\<lambda>_. None),
      open_for_write = None, json_dump = None, icon_notify = (\<lambda>_. None)\<rparr>
     \<lparr>monitor_index = 0, monitor = None\<rparr>)) = None \<and>
   switch_input
     \<lparr>get_monitors = Inl (Exception ''no DDC''), monitor_enter = (\<lambda>_. None),
      monitor_set_input_source = (\<lambda>_ _. None), monitor_exit = (\<lambda>_. None),
      open_for_write = None, json_dump = None, icon_notify = (\<lambda>_. None)\<rparr>
     \<lparr>monitor_index = 0, monitor = None\<rparr> (JStr ''HDMI-2'')
   = (Inr False, \<lparr>monitor_index = 0, monitor = None\<rparr>,
      [Log No_monitor_connected_reconnecting, Get_monitors,
       Log (Error_initializing_monitor (Exception ''no DDC''))]) \<and>
   switch_input
     \<lparr>get_monitors = Inr [7], monitor_enter = (\<lambda>_. None),
      monitor_set_input_source = (\<lambda>_ _. None), monitor_exit = (\<lambda>_. None),
      open_for_write = None, json_dump = None, icon_notify = (\<lambda>_. None)\<rparr>
     \<lparr>monitor_index = 0, monitor = None\<rparr> (JStr ''HDMI-2'')
   = (Inr True, \<lparr>monitor_index = 0, monitor = Some 7\<rparr>,
      [Log No_monitor_connected_reconnecting, Get_monitors, Log (Connected_to_monitor 0),
       Set_input_source 7 HDMI2, Log (Switched_monitor_to (JStr ''HDMI-2''))]) \<and>
   connects [Log No_monitor_connected_reconnecting, Get_monitors, Log (Connected_to_monitor 0),
       Set_input_source 7 HDMI2, Log (Switched_monitor_to (JStr ''HDMI-2''))] = 1"
  using switch_input_reconnects_once
    [of "\<lparr>monitor_index = 0, monitor = None\<rparr>"
        "\<lparr>get_monitors = Inl (Exception ''no DDC''), monitor_enter = (\<lambda>_. None),
          monitor_set_input_source = (\<lambda>_ _. None), monitor_exit = (\<lambda>_. None),
          open_for_write = None, json_dump = None, icon_notify = (\<lambda>_. None)\<rparr>"
        "JStr ''HDMI-2''" "Inr False" "\<lparr>monitor_index = 0, monitor = None\<rparr>"
        "[Log No_monitor_connected_reconnecting, Get_monitors,
          Log (Error_initializing_monitor (Exception ''no DDC''))]"
        "\<lparr>get_monitors = Inr [7], monitor_enter = (\<lambda>_. None),
          monitor_set_input_source = (\<lambda>_ _. None), monitor_exit = (\<lambda>_. None),
          open_for_write = None, json_dump = None, icon_notify = (\<lambda>_. None)\<rparr>"
        "JStr ''HDMI-2''" "Inr True" "\<lparr>monitor_index = 0, monitor = Some 7\<rparr>"
        "[Log No_monitor_connected_reconnecting, Get_monitors, Log (Connected_to_monitor 0),
          Set_input_source 7 HDMI2, Log (Switched_monitor_to (JStr ''HDMI-2''))]"]
  by (simp add: switch_input_def init_monitor_def py_index_def INPUT_SOURCES_def
        not_in_INPUT_SOURCES_def INPUT_SOURCES_getitem_def with_monitor_set_input_source_def)

text \<open>
  Claim C7: with a supported input name and a monitor that accepts the command at both
  calls (entering, setting and leaving raise nothing), two calls of \<^verbatim>\<open>switch_input\<close> in a
  row with the same input both return \<open>True\<close>, and both send the set-input command: the
  second call does not fail because the monitor is already on that input.
\<close>

theorem switch_input_twice:
  assumes "input_sources_lookup name = Some src"
    and "monitor c = Some m \<or> (monitor c = None \<and> monitor (fst (init_monitor e1 c)) = Some m)"
    and "monitor_enter e1 m = None" and "monitor_set_input_source e1 m src = None"
    and "monitor_exit e1 m = None"
    and "monitor_enter e2 m = None" and "monitor_set_input_source e2 m src = None"
    and "monitor_exit e2 m = None"
  shows "fst (switch_input e1 c name) = Inr True \<and>
         fst (switch_input e2 (fst (snd (switch_input e1 c name))) name) = Inr True \<and>
         Set_input_source m src \<in> set (snd (snd (switch_input e1 c name))) \<and>
         Set_input_source m src \<in>
           set (snd (snd (switch_input e2 (fst (snd (switch_input e1 c name))) name)))"
proof -
  have ok: "switch_input e c' name =
      (Inr True, c', [Set_input_source m src, Log (Switched_monitor_to name)])"
    if "monitor c' = Some m" "monitor_enter e m = None" "monitor_set_input_source e m src = None"
      "monitor_exit e m = None" for e c'
    using that assms(1) lookup_hashable [OF assms(1)]
    by (simp add: switch_input_live with_monitor_set_input_source_def)
  from assms(2) show ?thesis
  proof
    assume live: "monitor c = Some m"
    from ok [OF live assms(3,4,5)] ok [OF live assms(6,7,8)] show ?thesis by simp
  next
    assume absent: "monitor c = None \<and> monitor (fst (init_monitor e1 c)) = Some m"
    then have live: "monitor (fst (init_monitor e1 c)) = Some m" by simp
    from absent ok [OF live assms(3,4,5)] ok [OF live assms(6,7,8)]
    show ?thesis by (simp add: switch_input_absent)
  qed
qed

theorem switch_input_twice_witness:
  "input_sources_lookup (JStr ''HDMI-1'') = Some HDMI1 \<and>
   fst (switch_input
     \<lparr>get_monitors = Inr [7], monitor_enter = (\<lambda>_. None),
      monitor_set_input_source = (\<lambda>_ _. None), monitor_exit = (\<lambda>_. None),
      open_for_write = None, json_dump = None, icon_notify = (\<lambda>_. None)\<rparr>
     \<lparr>monitor_index = 0, monitor = Some 7\<rparr> (JStr ''HDMI-1'')) = Inr True \<and>
   fst (switch_input
     \<lparr>get_monitors = Inr [7], monitor_enter = (\<lambda>_. None),
      monitor_set_input_source = (\<lambda>_ _. None), monitor_exit = (\<lambda>_. None),
      open_for_write = None, json_dump = None, icon_notify = (\<lambda>_. None)\<rparr>
     (fst (snd (switch_input
       \<lparr>get_monitors = Inr [7], monitor_enter = (\<lambda>_. None),
        monitor_set_input_source = (\<lambda>_ _. None), monitor_exit = (\<lambda>_. None),
        open_for_write = None, json_dump = None, icon_notify = (\<lambda>_. None)\<rparr>
       \<lparr>monitor_index = 0, monitor = Some 7\<rparr> (JStr ''HDMI-1''))))
     (JStr ''HDMI-1'')) = Inr True"
  using switch_input_twice
    [of "JStr ''HDMI-1''" HDMI1 "\<lparr>monitor_index = 0, monitor = Some 7\<rparr>" 7
        "\<lparr>get_monitors = Inr [7], monitor_enter = (\<lambda>_. None),
          monitor_set_input_source = (\<lambda>_ _. None), monitor_exit = (\<lambda>_. None),
          open_for_write = None, json_dump = None, icon_notify = (\<lambda>_. None)\<rparr>"
        "\<lparr>get_monitors = Inr [7], monitor_enter = (\<lambda>_. None),
          monitor_set_input_source = (\<lambda>_ _. None), monitor_exit = (\<lambda>_. None),
          open_for_write = None, json_dump = None, icon_notify = (\<lambda>_. None)\<rparr>"]
  by (simp add: INPUT_SOURCES_def)

text \<open>
  Claim C8, as stated, fails twice. With a live handle, an input name that is a JSON array
  makes \<^verbatim>\<open>switch_input\<close> raise \<^verbatim>\<open>TypeError\<close>: the membership test stands before the
  \<^verbatim>\<open>try\<close>. And a switch that goes through returns the bare \<open>True\<close>: the resolved source is
  sent to the monitor and the input name is logged, neither is returned.
\<close>

theorem switch_input_unhashable_name_raises:
  "switch_input
     \<lparr>get_monitors = Inr [7], monitor_enter = (\<lambda>_. None),
      monitor_set_input_source = (\<lambda>_ _. None), monitor_exit = (\<lambda>_. None),
      open_for_write = None, json_dump = None, icon_notify = (\<lambda>_. None)\<rparr>
     \<lparr>monitor_index = 0, monitor = Some 7\<rparr> (JArray [JStr ''HDMI-1''])
   = (Inl TypeError, \<lparr>monitor_index = 0, monitor = Some 7\<rparr>, []) \<and>
   switch_input
     \<lparr>get_monitors = Inr [7], monitor_enter = (\<lambda>_. None),
      monitor_set_input_source = (\<lambda>_ _. None), monitor_exit = (\<lambda>_. None),
      open_for_write = None, json_dump = None, icon_notify = (\<lambda>_. None)\<rparr>
     \<lparr>monitor_index = 0, monitor = Some 7\<rparr> (JStr ''HDMI-1'')
   = (Inr True, \<lparr>monitor_index = 0, monitor = Some 7\<rparr>,
      [Set_input_source 7 HDMI1, Log (Switched_monitor_to (JStr ''HDMI-1''))])"
  by (simp add: switch_input_def not_in_INPUT_SOURCES_def INPUT_SOURCES_getitem_def
        INPUT_SOURCES_def with_monitor_set_input_source_def)

text \<open>
  Claim C8, amended: for an input name that Python can hash (a string, a number, a
  boolean or \<^verbatim>\<open>null\<close>), \<^verbatim>\<open>switch_input\<close> never raises and its outcome, with or without a
  reconnect before it, is one of these. No handle after the reconnect: \<open>False\<close>. A name
  outside \<^verbatim>\<open>INPUT_SOURCES\<close>: \<open>False\<close>, with the unknown input logged. A \<^verbatim>\<open>VCPError\<close> or any
  other exception of the monitor: \<open>False\<close>, the two differing only in the line logged. A
  command that goes through: the bare \<open>True\<close>, with the resolved source sent to the
  monitor and the input name in the log.
\<close>

theorem switch_input_failures_become_false:
  assumes "hashable name"
    and "c1 = (if monitor c = None then fst (init_monitor e c) else c)"
    and "t1 = (if monitor c = None
               then Log No_monitor_connected_reconnecting # snd (init_monitor e c) else [])"
  shows
   "(\<exists>b. fst (switch_input e c name) = Inr b) \<and>
    (monitor c1 = None \<longrightarrow> switch_input e c name = (Inr False, c1, t1)) \<and>
    (monitor c1 = Some m \<and> input_sources_lookup name = None \<longrightarrow>
       switch_input e c name = (Inr False, c1, t1 @ [Log (Unknown_input_source name)])) \<and>
    (monitor c1 = Some m \<and> input_sources_lookup name = Some src \<longrightarrow>
       (\<forall>msg t2. with_monitor_set_input_source e m src = (Inl (VCPError msg), t2) \<longrightarrow>
          switch_input e c name =
            (Inr False, c1, t1 @ t2 @ [Log (VCP_error_switching_input (VCPError msg))])) \<and>
       (\<forall>ex t2. with_monitor_set_input_source e m src = (Inl ex, t2) \<and>
             (\<forall>msg. ex \<noteq> VCPError msg) \<longrightarrow>
          switch_input e c name =
            (Inr False, c1, t1 @ t2 @ [Log (Error_switching_input ex)])) \<and>
       (fst (with_monitor_set_input_source e m src) = Inr () \<longrightarrow>
          switch_input e c name =
            (Inr True, c1,
             t1 @ [Set_input_source m src, Log (Switched_monitor_to name)])))"
proof (intro conjI impI allI)
  show "\<exists>b. fst (switch_input e c name) = Inr b"
    using assms(1)
    by (auto simp: switch_input_unfold Let_def split: option.split sum.split prod.split)
next
  assume "monitor c1 = None"
  with assms show "switch_input e c name = (Inr False, c1, t1)"
    by (simp add: switch_input_unfold Let_def)
next
  assume "monitor c1 = Some m \<and> input_sources_lookup name = None"
  with assms show "switch_input e c name = (Inr False, c1, t1 @ [Log (Unknown_input_source name)])"
    by (simp add: switch_input_unfold Let_def)
next
  fix msg t2
  assume "monitor c1 = Some m \<and> input_sources_lookup name = Some src"
    and "with_monitor_set_input_source e m src = (Inl (VCPError msg), t2)"
  with assms show "switch_input e c name =
            (Inr False, c1, t1 @ t2 @ [Log (VCP_error_switching_input (VCPError msg))])"
    by (simp add: switch_input_unfold Let_def)
next
  fix ex t2
  assume a: "monitor c1 = Some m \<and> input_sources_lookup name = Some src"
    and b: "with_monitor_set_input_source e m src = (Inl ex, t2) \<and> (\<forall>msg. ex \<noteq> VCPError msg)"
  from b have "switch_input_except ex = Error_switching_input ex"
    by (cases ex) simp_all
  with a b assms show "switch_input e c name =
            (Inr False, c1, t1 @ t2 @ [Log (Error_switching_input ex)])"
    by (simp add: switch_input_unfold Let_def)
next
  assume a: "monitor c1 = Some m \<and> input_sources_lookup name = Some src"
    and b: "fst (with_monitor_set_input_source e m src) = Inr ()"
  from b have "with_monitor_set_input_source e m src = (Inr (), [Set_input_source m src])"
    by (auto simp: with_monitor_set_input_source_def split: option.splits)
  with a assms show "switch_input e c name =
            (Inr True, c1, t1 @ [Set_input_source m src, Log (Switched_monitor_to name)])"
    by (simp add: switch_input_unfold Let_def)
qed

theorem switch_input_failures_become_false_witness:
  "hashable (JStr ''HDMI-2'') \<and> hashable (JStr ''VGA-2'') \<and>
   input_sources_lookup (JStr ''VGA-2'') = None \<and>
   input_sources_lookup (JStr ''HDMI-2'') = Some HDMI2 \<and>
   switch_input
     \<lparr>get_monitors = Inr [7], monitor_enter = (\<lambda>_. None),
      monitor_set_input_source = (\<lambda>_ _. None), monitor_exit = (\<lambda>_. None),
      open_for_write = None, json_dump = None, icon_notify = (\<lambda>_. None)\<rparr>
     \<lparr>monitor_index = 0, monitor = Some 7\<rparr> (JStr ''VGA-2'')
     = (Inr False, \<lparr>monitor_index = 0, monitor = Some 7\<rparr>,
        [Log (Unknown_input_source (JStr ''VGA-2''))]) \<and>
   switch_input
     \<lparr>get_monitors = Inr [7], monitor_enter = (\<lambda>_. None),
      monitor_set_input_source = (\<lambda>_ _. Some (VCPError ''rejected'')), monitor_exit = (\<lambda>_. None),
      open_for_write = None, json_dump = None, icon_notify = (\<lambda>_. None)\<rparr>
     \<lparr>monitor_index = 0, monitor = None\<rparr> (JStr ''HDMI-2'')
     = (Inr False, \<lparr>monitor_index = 0, monitor = Some 7\<rparr>,
        [Log No_monitor_connected_reconnecting, Get_monitors, Log (Connected_to_monitor 0),
         Log (VCP_error_switching_input (VCPError ''rejected''))]) \<and>
   switch_input
     \<lparr>get_monitors = Inr [7], monitor_enter = (\<lambda>_. Some (Exception ''busy'')),
      monitor_set_input_source = (\<lambda>_ _. None), monitor_exit = (\<lambda>_. None),
      open_for_write = None, json_dump = None, icon_notify = (\<lambda>_. None)\<rparr>
     \<lparr>monitor_index = 0, monitor = Some 7\<rparr> (JStr ''HDMI-2'')
     = (Inr False, \<lparr>monitor_index = 0, monitor = Some 7\<rparr>,
        [Log (Error_switching_input (Exception ''busy''))]) \<and>
   switch_input
     \<lparr>get_monitors = Inr [7], monitor_enter = (\<lambda>_. None),
      monitor_set_input_source = (\<lambda>_ _. None), monitor_exit = (\<lambda>_. None),
      open_for_write = None, json_dump = None, icon_notify = (\<lambda>_. None)\<rparr>
     \<lparr>monitor_index = 0, monitor = None\<rparr> (JStr ''HDMI-2'')
     = (Inr True, \<lparr>monitor_index = 0, monitor = Some 7\<rparr>,
        [Log No_monitor_connected_reconnecting, Get_monitors, Log (Connected_to_monitor 0),
         Set_input_source 7 HDMI2, Log (Switched_monitor_to (JStr ''HDMI-2''))])"
proof -
  let ?live = "\<lparr>monitor_index = 0, monitor = Some 7\<rparr>"
  let ?absent = "\<lparr>monitor_index = 0, monitor = None\<rparr>"
  let ?vcp = "\<lparr>get_monitors = Inr [7], monitor_enter = (\<lambda>_. None),
      monitor_set_input_source = (\<lambda>_ _. Some (VCPError ''rejected'')), monitor_exit = (\<lambda>_. None),
      open_for_write = None, json_dump = None, icon_notify = (\<lambda>_. None)\<rparr>"
  let ?busy = "\<lparr>get_monitors = Inr [7], monitor_enter = (\<lambda>_. Some (Exception ''busy'')),
      monitor_set_input_source = (\<lambda>_ _. None), monitor_exit = (\<lambda>_. None),
      open_for_write = None, json_dump = None, icon_notify = (\<lambda>_. None)\<rparr>"
  let ?ok = "\<lparr>get_monitors = Inr [7], monitor_enter = (\<lambda>_. None),
      monitor_set_input_source = (\<lambda>_ _. None), monitor_exit = (\<lambda>_. None),
      open_for_write = None, json_dump = None, icon_notify = (\<lambda>_. None)\<rparr>"
  let ?re = "[Log No_monitor_connected_reconnecting, Get_monitors, Log (Connected_to_monitor 0)]"
  have n: "input_sources_lookup (JStr ''VGA-2'') = None"
    and h: "input_sources_lookup (JStr ''HDMI-2'') = Some HDMI2"
    by (simp_all add: INPUT_SOURCES_def)
  have i1: "init_monitor ?vcp ?absent = (?live, [Get_monitors, Log (Connected_to_monitor 0)])"
    and i2: "init_monitor ?ok ?absent = (?live, [Get_monitors, Log (Connected_to_monitor 0)])"
    by (simp_all add: init_monitor_def py_index_def)
  have w1: "with_monitor_set_input_source ?vcp 7 HDMI2 = (Inl (VCPError ''rejected''), [])"
    and w2: "with_monitor_set_input_source ?busy 7 HDMI2 = (Inl (Exception ''busy''), [])"
    and w3: "fst (with_monitor_set_input_source ?ok 7 HDMI2) = Inr ()"
    by (simp_all add: with_monitor_set_input_source_def)
  from n h i1 i2 w1 w2 w3
    switch_input_failures_become_false
      [where e = ?ok and c = ?live and name = "JStr ''VGA-2''" and m = 7 and src = HDMI2
         and ?c1.0 = ?live and ?t1.0 = "[]"]
    switch_input_failures_become_false
      [where e = ?vcp and c = ?absent and name = "JStr ''HDMI-2''" and m = 7 and src = HDMI2
         and ?c1.0 = ?live and ?t1.0 = ?re]
    switch_input_failures_become_false
      [where e = ?busy and c = ?live and name = "JStr ''HDMI-2''" and m = 7 and src = HDMI2
         and ?c1.0 = ?live and ?t1.0 = "[]"]
    switch_input_failures_become_false
      [where e = ?ok and c = ?absent and name = "JStr ''HDMI-2''" and m = 7 and src = HDMI2
         and ?c1.0 = ?live and ?t1.0 = ?re]
  show ?thesis by simp
qed

section \<open>Properties of the application callback\<close>

text \<open>
  Claim C10: when \<^verbatim>\<open>switch_input\<close> returns \<open>False\<close> inside \<^verbatim>\<open>_on_km_switch\<close>, the
  configuration is left as it was, dictionary and file alike; \<^verbatim>\<open>last_active_machine\<close> is
  written when the switch returned \<open>True\<close>.
\<close>

theorem on_km_switch_failed_keeps_config:
  assumes "on_km_switch e machine a = (r, a', t)"
  shows "(fst (switch_input e (controller a)
            (if machine = ''home''
             then get (config a) ''home_machine_input'' (JStr ''HDMI-1'')
             else get (config a) ''work_laptop_input'' (JStr ''HDMI-2''))) = Inr False \<longrightarrow>
            config a' = config a) \<and>
         (fst (switch_input e (controller a)
            (if machine = ''home''
             then get (config a) ''home_machine_input'' (JStr ''HDMI-1'')
             else get (config a) ''work_laptop_input'' (JStr ''HDMI-2''))) = Inr True \<longrightarrow>
            data (config a') = (data (config a))(''last_active_machine'' \<mapsto> JStr machine))"
proof -
  let ?name = "if machine = ''home''
             then get (config a) ''home_machine_input'' (JStr ''HDMI-1'')
             else get (config a) ''work_laptop_input'' (JStr ''HDMI-2'')"
  obtain r1 c1 t1 where sw: "switch_input e (controller a) ?name = (r1, c1, t1)"
    by (cases "switch_input e (controller a) ?name") auto
  have saved: "data (fst (set_config e cfg k v)) = (data cfg)(k \<mapsto> v)" for cfg k v
    by (simp add: set_config_def save_def split: option.split)
  from assms sw saved [of "config a" "''last_active_machine''" "JStr machine"]
  show ?thesis
    by (auto simp: on_km_switch_def Let_def split: prod.splits if_splits)
qed

theorem on_km_switch_failed_keeps_config_witness:
  "on_km_switch
     \<lparr>get_monitors = Inl (Exception ''no DDC''), monitor_enter = (\<lambda>_. None),
      monitor_set_input_source = (\<lambda>_ _. None), monitor_exit = (\<lambda>_. None),
      open_for_write = None, json_dump = None, icon_notify = (\<lambda>_. None)\<rparr>
     ''work''
     \<lparr>config = \<lparr>data = [''last_active_machine'' \<mapsto> JStr ''home''], disk = Missing\<rparr>,
      controller = \<lparr>monitor_index = 0, monitor = None\<rparr>, icon = True\<rparr>
   = (Inr (),
      \<lparr>config = \<lparr>data = [''last_active_machine'' \<mapsto> JStr ''home''], disk = Missing\<rparr>,
       controller = \<lparr>monitor_index = 0, monitor = None\<rparr>, icon = True\<rparr>,
      [Log (Switching_to_machine ''work''), Log No_monitor_connected_reconnecting, Get_monitors,
       Log (Error_initializing_monitor (Exception ''no DDC'')),
       Notify (Failed_to_switch (JStr ''HDMI-2''))]) \<and>
   fst (switch_input
     \<lparr>get_monitors = Inl (Exception ''no DDC''), monitor_enter = (\<lambda>_. None),
      monitor_set_input_source = (\<lambda>_ _. None), monitor_exit = (\<lambda>_. None),
      open_for_write = None, json_dump = None, icon_notify = (\<lambda>_. None)\<rparr>
     \<lparr>monitor_index = 0, monitor = None\<rparr> (JStr ''HDMI-2'')) = Inr False"
  using on_km_switch_failed_keeps_config
    [of "\<lparr>get_monitors = Inl (Exception ''no DDC''), monitor_enter = (\<lambda>_. None),
          monitor_set_input_source = (\<lambda>_ _. None), monitor_exit = (\<lambda>_. None),
          open_for_write = None, json_dump = None, icon_notify = (\<lambda>_. None)\<rparr>"
        "''work''"
        "\<lparr>config = \<lparr>data = [''last_active_machine'' \<mapsto> JStr ''home''], disk = Missing\<rparr>,
          controller = \<lparr>monitor_index = 0, monitor = None\<rparr>, icon = True\<rparr>"
        "Inr ()"
        "\<lparr>config = \<lparr>data = [''last_active_machine'' \<mapsto> JStr ''home''], disk = Missing\<rparr>,
          controller = \<lparr>monitor_index = 0, monitor = None\<rparr>, icon = True\<rparr>"
        "[Log (Switching_to_machine ''work''), Log No_monitor_connected_reconnecting, Get_monitors,
          Log (Error_initializing_monitor (Exception ''no DDC'')),
          Notify (Failed_to_switch (JStr ''HDMI-2''))]"]
  by (simp add: on_km_switch_def Let_def switch_input_def init_monitor_def get_def
        notify_icon_def)

end
